theory Spec2Isabelle
  imports Complex_Main
begin

section \<open>Ternary plotting: a model of \<^verbatim>\<open>ternary/plotting.py\<close>\<close>

text \<open>
  Python's unbounded integers are \<^typ>\<open>int\<close>. Python's floats are modelled by \<^typ>\<open>real\<close>:
  the arithmetic of the model is exact, rounding is not represented. Exceptions are values
  of the type \<open>error\<close>; a function that can raise returns \<open>error + 'a\<close>.
\<close>

text \<open>
  The three places a ValueError can come from: \<^verbatim>\<open>min\<close> or \<^verbatim>\<open>max\<close> of an empty
  collection, a tuple assignment with the wrong number of items, and the lookup of a colormap
  name that is not registered.
\<close>

datatype value_error = EmptySequence | Unpack | UnknownColormap

datatype error = KeyError | ValueError value_error | TypeError | ZeroDivisionError

subsection \<open>Helpers\<close>

text \<open>\<^verbatim>\<open>range(a, b)\<close> on integers: \<open>a, a + 1, ..., b - 1\<close>, empty when \<open>b \<le> a\<close>.\<close>

definition range_py :: "int \<Rightarrow> int \<Rightarrow> int list" where
  "range_py a b = [a..b - 1]"

text \<open>
  \<^verbatim>\<open>unzip(l) = zip(*l)\<close> on a list of pairs: the list of the first components and the list
  of the second components, and nothing at all for the empty list.
\<close>

definition unzip :: "('a \<times> 'a) list \<Rightarrow> 'a list list" where
  "unzip l = (if l = [] then [] else [map fst l, map snd l])"

text \<open>The tuple assignment \<^verbatim>\<open>x, y = ...\<close>, which raises ValueError unless there are two items.\<close>

fun unpack2 :: "'a list \<Rightarrow> error + ('a \<times> 'a)" where
  "unpack2 [x, y] = Inr (x, y)"
| "unpack2 _ = Inl (ValueError Unpack)"


subsection \<open>Ternary projections\<close>

definition SQRT3OVER2 :: real where
  "SQRT3OVER2 = sqrt 3 / 2"


subsection \<open>Heatmaps: the lattice\<close>

text \<open>
  The generator \<^verbatim>\<open>simplex_points(steps, boundary)\<close> as the list of what it yields, in the
  order of the two nested loops.
\<close>

definition simplex_points :: "int \<Rightarrow> bool \<Rightarrow> (int \<times> int \<times> int) list" where
  "simplex_points steps boundary =
     (let start = (if \<not> boundary then 1 else 0)
      in concat (map (\<lambda>x1.
           map (\<lambda>x2. (x1, x2, steps - x1 - x2))
               (range_py start (steps + (1 - start) - x1)))
           (range_py start (steps + (1 - start)))))"

text \<open>The order of the nested loops: the first component ascends, and within one value of
  the first component the second ascends.\<close>

definition loop_before :: "int \<times> int \<times> int \<Rightarrow> int \<times> int \<times> int \<Rightarrow> bool" where
  "loop_before p q = (fst p < fst q \<or> (fst p = fst q \<and> fst (snd p) < fst (snd q)))"


subsection \<open>Strings\<close>

text \<open>
  \<^verbatim>\<open>str.lower\<close> on 8-bit characters: the letters \<open>A\<close> to \<open>Z\<close> move to \<open>a\<close> to \<open>z\<close>, every
  other character stays. \<^verbatim>\<open>str.startswith\<close> compares the leading characters.
\<close>

definition lower_char :: "char \<Rightarrow> char" where
  "lower_char c =
     (let n = (of_char c :: nat) in if 65 \<le> n \<and> n \<le> 90 then char_of (n + 32) else c)"

definition lower :: "string \<Rightarrow> string" where
  "lower s = map lower_char s"

definition startswith :: "string \<Rightarrow> string \<Rightarrow> bool" where
  "startswith s p = (take (length p) s = p)"

subsection \<open>The value map\<close>

text \<open>
  The dictionary \<open>d\<close> from lattice indices \<open>(i, j)\<close> to values, as the list of its items in
  iteration order. \<open>getitem\<close> is \<^verbatim>\<open>d[k]\<close>, \<open>setitem\<close> is \<^verbatim>\<open>d[k] = v\<close>: it replaces the value
  of a key that is present and appends a new key at the end.
\<close>

type_synonym valmap = "((int \<times> int) \<times> real) list"

definition getitem :: "valmap \<Rightarrow> int \<times> int \<Rightarrow> error + real" where
  "getitem d k = (case map_of d k of None \<Rightarrow> Inl KeyError | Some v \<Rightarrow> Inr v)"


definition values_py :: "valmap \<Rightarrow> real list" where
  "values_py d = map snd d"

fun min_py :: "real list \<Rightarrow> error + real" where
  "min_py [] = Inl (ValueError EmptySequence)"
| "min_py (x # xs) = Inr (fold min xs x)"

fun max_py :: "real list \<Rightarrow> error + real" where
  "max_py [] = Inl (ValueError EmptySequence)"
| "max_py (x # xs) = Inr (fold max xs x)"

subsection \<open>The palette, the hexagon geometry and the drawing surfaces\<close>

text \<open>
  What the module takes from outside is a parameter of the model: the default colormap
  (\<^verbatim>\<open>pyplot.get_cmap('jet')\<close>), the lookup of a colormap by name (which raises ValueError for
  a name it does not know), \<^verbatim>\<open>matplotlib.colors.rgb2hex\<close>, and \<^verbatim>\<open>hex_coordinates\<close> of the
  module \<^verbatim>\<open>hexagonal_heatmap\<close>, which returns the vertices of a hexagon or \<^verbatim>\<open>None\<close>.
\<close>

type_synonym rgba = "real \<times> real \<times> real \<times> real"
type_synonym cmap = "real \<Rightarrow> rgba"

record env =
  DEFAULT_COLOR_MAP :: cmap
  get_cmap :: "string \<Rightarrow> cmap option"
  rgb2hex :: "rgba \<Rightarrow> string"
  hex_coordinates :: "int \<Rightarrow> int \<Rightarrow> int \<Rightarrow> (real \<times> real) list option"

text \<open>
  The state of the plotting library: the axes are numbered, \<open>drawn\<close> is the sequence of the
  drawing commands issued so far, each with the axes it was issued against, and
  \<open>current_axes\<close> is the axes that the module-level commands of \<^verbatim>\<open>pyplot\<close> draw on.
  \<^verbatim>\<open>pyplot.subplot()\<close> returns the current axes and creates one first when there is none;
  \<^verbatim>\<open>ax.fill\<close> draws on \<open>ax\<close>; \<^verbatim>\<open>pyplot.fill\<close> draws on the current axes;
  \<^verbatim>\<open>pyplot.colorbar(sm, ax=ax)\<close> attaches the legend to \<open>ax\<close>.
\<close>

type_synonym axis = nat

datatype primitive =
    Fill "real list" "real list" string string
  | Colorbar cmap real real string "nat option" bool

record pyplot =
  current_axes :: "axis option"
  axes_count :: nat
  drawn :: "(axis \<times> primitive) list"

definition subplot :: "pyplot \<Rightarrow> axis \<times> pyplot" where
  "subplot st =
     (case current_axes st of
        Some a \<Rightarrow> (a, st)
      | None \<Rightarrow> (axes_count st,
                 st\<lparr>current_axes := Some (axes_count st), axes_count := Suc (axes_count st)\<rparr>))"

definition ax_fill ::
  "axis \<Rightarrow> real list \<Rightarrow> real list \<Rightarrow> string \<Rightarrow> string \<Rightarrow> pyplot \<Rightarrow> pyplot" where
  "ax_fill ax x y facecolor edgecolor st =
     st\<lparr>drawn := drawn st @ [(ax, Fill x y facecolor edgecolor)]\<rparr>"

definition pyplot_fill ::
  "real list \<Rightarrow> real list \<Rightarrow> string \<Rightarrow> string \<Rightarrow> pyplot \<Rightarrow> pyplot" where
  "pyplot_fill x y facecolor edgecolor st =
     (case subplot st of (ax, st') \<Rightarrow> ax_fill ax x y facecolor edgecolor st')"

definition colorbar ::
  "axis \<Rightarrow> cmap \<Rightarrow> real \<Rightarrow> real \<Rightarrow> string \<Rightarrow> nat option \<Rightarrow> bool \<Rightarrow> pyplot \<Rightarrow> pyplot" where
  "colorbar ax cm vmin vmax format numticks scientific st =
     st\<lparr>drawn := drawn st @ [(ax, Colorbar cm vmin vmax format numticks scientific)]\<rparr>"

subsection \<open>Heatmaps: colors and triangles\<close>

definition colormapper :: "env \<Rightarrow> real \<Rightarrow> real \<Rightarrow> real \<Rightarrow> cmap option \<Rightarrow> string" where
  "colormapper env x a b cmap =
     (let cm = (case cmap of None \<Rightarrow> DEFAULT_COLOR_MAP env | Some c \<Rightarrow> c);
          rgba = (if b - a = 0 then cm 0 else cm ((x - a) / (b - a)));
          hex_color = rgb2hex env rgba
      in hex_color)"

definition triangle_coordinates :: "int \<Rightarrow> int \<Rightarrow> bool \<Rightarrow> (real \<times> real) list" where
  "triangle_coordinates i j alt =
     (if \<not> alt then
        [(real_of_int i / 2 + real_of_int j, real_of_int i * SQRT3OVER2),
         (real_of_int i / 2 + real_of_int j + 1, real_of_int i * SQRT3OVER2),
         (real_of_int i / 2 + real_of_int j + 0.5, (real_of_int i + 1) * SQRT3OVER2)]
      else
        [(real_of_int i / 2 + real_of_int j + 1, real_of_int i * SQRT3OVER2),
         (real_of_int i / 2 + real_of_int j + 1.5, (real_of_int i + 1) * SQRT3OVER2),
         (real_of_int i / 2 + real_of_int j + 0.5, (real_of_int i + 1) * SQRT3OVER2)])"

subsection \<open>Heatmaps: the hexagonal renderer\<close>

text \<open>
  A function that draws takes the state of the plotting library and returns its result, or
  the exception it raised, together with the state it left.
\<close>

text \<open>The loop \<^verbatim>\<open>for k, v in d.items()\<close> of \<^verbatim>\<open>heatmap_hexagonal\<close>.\<close>

fun hexagonal_cells ::
  "env \<Rightarrow> valmap \<Rightarrow> int \<Rightarrow> real \<Rightarrow> real \<Rightarrow> cmap \<Rightarrow> axis \<Rightarrow> ((int \<times> int) \<times> real) list
     \<Rightarrow> pyplot \<Rightarrow> (error + unit) \<times> pyplot" where
  "hexagonal_cells env d steps a b cm ax [] st = (Inr (), st)"
| "hexagonal_cells env d steps a b cm ax ((k, v) # items) st =
     (case k of (i, j) \<Rightarrow>
       (case hex_coordinates env i j steps of
          None \<Rightarrow> hexagonal_cells env d steps a b cm ax items st
        | Some vertices \<Rightarrow>
           (case unpack2 (unzip vertices) of
              Inl e \<Rightarrow> (Inl e, st)
            | Inr (x, y) \<Rightarrow>
               (case getitem d (i, j) of
                  Inl e \<Rightarrow> (Inl e, st)
                | Inr dij \<Rightarrow>
                   (let color = colormapper env dij a b (Some cm)
                    in hexagonal_cells env d steps a b cm ax items
                         (ax_fill ax x y color color st))))))"

definition heatmap_hexagonal ::
  "env \<Rightarrow> valmap \<Rightarrow> int \<Rightarrow> string option \<Rightarrow> bool \<Rightarrow> axis option \<Rightarrow> bool
     \<Rightarrow> (real \<times> real) option \<Rightarrow> pyplot \<Rightarrow> (error + axis) \<times> pyplot" where
  "heatmap_hexagonal env d steps cmap_name boundary ax scientific min_max_scale st =
     (case (case ax of None \<Rightarrow> subplot st | Some ax' \<Rightarrow> (ax', st)) of (ax, st1) \<Rightarrow>
      (case (if cmap_name = None \<or> cmap_name = Some []
             then Some (DEFAULT_COLOR_MAP env) else get_cmap env (the cmap_name)) of
         None \<Rightarrow> (Inl (ValueError UnknownColormap), st1)
       | Some cm \<Rightarrow>
          (case (case min_max_scale of
                   None \<Rightarrow>
                    (case min_py (values_py d) of
                       Inl e \<Rightarrow> Inl e
                     | Inr a \<Rightarrow>
                        (case max_py (values_py d) of Inl e \<Rightarrow> Inl e | Inr b \<Rightarrow> Inr (a, b)))
                 | Some (lo, hi) \<Rightarrow> Inr (lo, hi)) of
             Inl e \<Rightarrow> (Inl e, st1)
           | Inr (a, b) \<Rightarrow>
              (case hexagonal_cells env d steps a b cm ax d st1 of
                 (Inl e, st2) \<Rightarrow> (Inl e, st2)
               | (Inr _, st2) \<Rightarrow>
                  (Inr ax, colorbar ax cm a b ''%.4f'' (Some 7) scientific st2)))))"

subsection \<open>Heatmaps: the triangular renderer\<close>

text \<open>The loop \<^verbatim>\<open>for k, v in d.items()\<close> of \<^verbatim>\<open>heatmap_triangular\<close>.\<close>

fun triangular_cells ::
  "env \<Rightarrow> valmap \<Rightarrow> real \<Rightarrow> real \<Rightarrow> cmap \<Rightarrow> axis \<Rightarrow> ((int \<times> int) \<times> real) list
     \<Rightarrow> pyplot \<Rightarrow> (error + unit) \<times> pyplot" where
  "triangular_cells env d a b cm ax [] st = (Inr (), st)"
| "triangular_cells env d a b cm ax ((k, v) # items) st =
     (case k of (i, j) \<Rightarrow>
       (let vertices = triangle_coordinates i j False
        in case unpack2 (unzip vertices) of
             Inl e \<Rightarrow> (Inl e, st)
           | Inr (x, y) \<Rightarrow>
              (case getitem d (i, j) of
                 Inl e \<Rightarrow> (Inl e, st)
               | Inr dij \<Rightarrow>
                  (let color = colormapper env dij a b (Some cm)
                   in triangular_cells env d a b cm ax items
                        (ax_fill ax x y color color st)))))"

text \<open>
  The body of the \<^verbatim>\<open>try\<close> in the smoothing loop: the three lookups, from left to right, the
  color of their mean, the vertices of the alt triangle, and the fill, which goes through
  \<^verbatim>\<open>pyplot.fill\<close>.
\<close>

definition smoothing_body ::
  "env \<Rightarrow> valmap \<Rightarrow> real \<Rightarrow> real \<Rightarrow> cmap \<Rightarrow> int \<Rightarrow> int \<Rightarrow> pyplot \<Rightarrow> (error + unit) \<times> pyplot" where
  "smoothing_body env d a b cm i j st =
     (case getitem d (i, j) of
        Inl e \<Rightarrow> (Inl e, st)
      | Inr v1 \<Rightarrow>
         (case getitem d (i, j + 1) of
            Inl e \<Rightarrow> (Inl e, st)
          | Inr v2 \<Rightarrow>
             (case getitem d (i + 1, j) of
                Inl e \<Rightarrow> (Inl e, st)
              | Inr v3 \<Rightarrow>
                 (let alt_color = (v1 + v2 + v3) / 3;
                      color = colormapper env alt_color a b (Some cm);
                      vertices = triangle_coordinates i j True
                  in case unpack2 (unzip vertices) of
                       Inl e \<Rightarrow> (Inl e, st)
                     | Inr (x, y) \<Rightarrow> (Inr (), pyplot_fill x y color color st)))))"

text \<open>\<^verbatim>\<open>except KeyError: pass\<close>: a KeyError ends the iteration normally, any other exception
  goes on.\<close>

definition except_KeyError_pass :: "(error + unit) \<times> pyplot \<Rightarrow> (error + unit) \<times> pyplot" where
  "except_KeyError_pass r =
     (case r of (Inl e, st) \<Rightarrow> (if e = KeyError then (Inr (), st) else (Inl e, st))
              | (Inr u, st) \<Rightarrow> (Inr u, st))"

fun smoothing_inner ::
  "env \<Rightarrow> valmap \<Rightarrow> real \<Rightarrow> real \<Rightarrow> cmap \<Rightarrow> int \<Rightarrow> int list \<Rightarrow> pyplot \<Rightarrow> (error + unit) \<times> pyplot" where
  "smoothing_inner env d a b cm i [] st = (Inr (), st)"
| "smoothing_inner env d a b cm i (j # js) st =
     (case except_KeyError_pass (smoothing_body env d a b cm i j st) of
        (Inl e, st') \<Rightarrow> (Inl e, st')
      | (Inr _, st') \<Rightarrow> smoothing_inner env d a b cm i js st')"

fun smoothing_outer ::
  "env \<Rightarrow> valmap \<Rightarrow> int \<Rightarrow> int \<Rightarrow> real \<Rightarrow> real \<Rightarrow> cmap \<Rightarrow> int list \<Rightarrow> pyplot
     \<Rightarrow> (error + unit) \<times> pyplot" where
  "smoothing_outer env d steps offset a b cm [] st = (Inr (), st)"
| "smoothing_outer env d steps offset a b cm (i # is) st =
     (case smoothing_inner env d a b cm i (range_py offset (steps - i - offset)) st of
        (Inl e, st') \<Rightarrow> (Inl e, st')
      | (Inr _, st') \<Rightarrow> smoothing_outer env d steps offset a b cm is st')"

text \<open>The smoothing loops of \<^verbatim>\<open>heatmap_triangular\<close>, from \<^verbatim>\<open>offset = 0\<close> to the last
  iteration.\<close>

definition smoothing ::
  "env \<Rightarrow> valmap \<Rightarrow> int \<Rightarrow> bool \<Rightarrow> real \<Rightarrow> real \<Rightarrow> cmap \<Rightarrow> pyplot \<Rightarrow> (error + unit) \<times> pyplot" where
  "smoothing env d steps boundary a b cm st =
     (let offset = (if \<not> boundary then 1 else 0)
      in smoothing_outer env d steps offset a b cm (range_py offset (steps + 1 - offset)) st)"

definition heatmap_triangular ::
  "env \<Rightarrow> valmap \<Rightarrow> int \<Rightarrow> string option \<Rightarrow> bool \<Rightarrow> axis option \<Rightarrow> bool
     \<Rightarrow> pyplot \<Rightarrow> (error + axis) \<times> pyplot" where
  "heatmap_triangular env d steps cmap_name boundary ax scientific st =
     (case (case ax of None \<Rightarrow> subplot st | Some ax' \<Rightarrow> (ax', st)) of (ax, st1) \<Rightarrow>
      (case (if cmap_name = None \<or> cmap_name = Some []
             then Some (DEFAULT_COLOR_MAP env) else get_cmap env (the cmap_name)) of
         None \<Rightarrow> (Inl (ValueError UnknownColormap), st1)
       | Some cm \<Rightarrow>
          (case min_py (values_py d) of
             Inl e \<Rightarrow> (Inl e, st1)
           | Inr a \<Rightarrow>
              (case max_py (values_py d) of
                 Inl e \<Rightarrow> (Inl e, st1)
               | Inr b \<Rightarrow>
                  (case triangular_cells env d a b cm ax d st1 of
                     (Inl e, st2) \<Rightarrow> (Inl e, st2)
                   | (Inr _, st2) \<Rightarrow>
                      (case smoothing env d steps boundary a b cm st2 of
                         (Inl e, st3) \<Rightarrow> (Inl e, st3)
                       | (Inr _, st3) \<Rightarrow>
                          (Inr ax, colorbar ax cm a b ''%.3f'' None scientific st3)))))))"

subsection \<open>Heatmaps: the entry point\<close>

text \<open>
  The keyword arguments of \<^verbatim>\<open>heatmap(*args, **kwargs)\<close>: \<open>None\<close> is a keyword that was not
  given. A style, a colormap name, an axes and a scale can also be given as Python's
  \<^verbatim>\<open>None\<close>, the inner \<open>None\<close>. The positional arguments are the value map and the steps.
\<close>

record kwargs =
  kw_style :: "string option option"
  kw_cmap_name :: "string option option"
  kw_boundary :: "bool option"
  kw_ax :: "axis option option"
  kw_scientific :: "bool option"
  kw_min_max_scale :: "(real \<times> real) option option"

text \<open>The value of a parameter: the keyword when it was given, the default otherwise.\<close>

definition kwarg_or :: "'a \<Rightarrow> 'a option \<Rightarrow> 'a" where
  "kwarg_or dflt given = (case given of None \<Rightarrow> dflt | Some v \<Rightarrow> v)"

text \<open>
  \<^verbatim>\<open>heatmap\<close>. The \<^verbatim>\<open>try\<close> reads \<^verbatim>\<open>kwargs['style']\<close>, the \<^verbatim>\<open>except KeyError\<close> puts
  \<^verbatim>\<open>"triangular"\<close> in its place, and the \<^verbatim>\<open>finally\<close> runs \<^verbatim>\<open>del kwargs['style']\<close>, which
  raises KeyError itself when the keyword is not there. \<^verbatim>\<open>heatmap_triangular\<close> has no
  parameter \<^verbatim>\<open>min_max_scale\<close>: the call raises TypeError when that keyword is passed on to
  it. When the style matches neither prefix the function ends without a \<^verbatim>\<open>return\<close>: its
  result is \<^verbatim>\<open>None\<close>.
\<close>

definition heatmap ::
  "env \<Rightarrow> valmap \<Rightarrow> int \<Rightarrow> kwargs \<Rightarrow> pyplot \<Rightarrow> (error + axis option) \<times> pyplot" where
  "heatmap env d steps kw st =
     (let style = (case kw_style kw of Some v \<Rightarrow> v | None \<Rightarrow> Some ''triangular'')
      in if kw_style kw = None then (Inl KeyError, st)
         else
          (let style = (if style = None then ''triangular'' else the style);
               style = lower style
           in if startswith style ''tri'' then
                (if kw_min_max_scale kw \<noteq> None then (Inl TypeError, st)
                 else
                  (case heatmap_triangular env d steps
                          (kwarg_or None (kw_cmap_name kw)) (kwarg_or True (kw_boundary kw))
                          (kwarg_or None (kw_ax kw)) (kwarg_or False (kw_scientific kw)) st of
                     (Inl e, st') \<Rightarrow> (Inl e, st')
                   | (Inr ax, st') \<Rightarrow> (Inr (Some ax), st')))
              else if startswith style ''hex'' then
                (case heatmap_hexagonal env d steps
                        (kwarg_or None (kw_cmap_name kw)) (kwarg_or True (kw_boundary kw))
                        (kwarg_or None (kw_ax kw)) (kwarg_or False (kw_scientific kw))
                        (kwarg_or None (kw_min_max_scale kw)) st of
                   (Inl e, st') \<Rightarrow> (Inl e, st')
                 | (Inr ax, st') \<Rightarrow> (Inr (Some ax), st'))
              else (Inr None, st)))"

subsection \<open>Convenience functions\<close>



subsection \<open>An instance of the parameters\<close>

text \<open>
  A small environment on which the model can be evaluated: a default colormap that goes from
  blue to red, one registered colormap named \<open>gray\<close>, a conversion to a color string that
  only tells black from the rest, and a hexagon geometry that is undefined everywhere.
\<close>

definition example_env :: env where
  "example_env =
     \<lparr>DEFAULT_COLOR_MAP = (\<lambda>t. (t, 0, 1 - t, 1)),
      get_cmap = (\<lambda>name. if name = ''gray'' then Some (\<lambda>t. (t, t, t, 1)) else None),
      rgb2hex = (\<lambda>c. if fst c \<le> 0 then ''#000000'' else ''#ffffff''),
      hex_coordinates = (\<lambda>i j steps. None)\<rparr>"

section \<open>Properties\<close>

subsection \<open>The lattice enumeration\<close>

lemma set_range_py: "set (range_py a b) = {i. a \<le> i \<and> i < b}"
  by (auto simp: range_py_def)

lemma sorted_wrt_range_py: "sorted_wrt (<) (range_py a b)"
  by (simp add: range_py_def)

lemma range_py_Cons: "a < b \<Longrightarrow> range_py a b = a # range_py (a + 1) b"
  by (simp add: range_py_def upto_rec1)

lemma range_py_Nil: "b \<le> a \<Longrightarrow> range_py a b = []"
  by (simp add: range_py_def)

lemma sorted_wrt_concat_map:
  assumes "sorted_wrt R xs"
    and "\<And>x. x \<in> set xs \<Longrightarrow> sorted_wrt Q (f x)"
    and "\<And>x y u v. R x y \<Longrightarrow> u \<in> set (f x) \<Longrightarrow> v \<in> set (f y) \<Longrightarrow> Q u v"
  shows "sorted_wrt Q (concat (map f xs))"
  using assms
proof (induction xs)
  case Nil
  then show ?case by simp
next
  case (Cons x xs)
  have tl: "sorted_wrt Q (concat (map f xs))"
    using Cons by simp
  have cross: "\<forall>u\<in>set (f x). \<forall>v\<in>set (concat (map f xs)). Q u v"
    using Cons.prems(1) Cons.prems(3) by auto
  show ?case
    using tl cross Cons.prems(2) by (simp add: sorted_wrt_append)
qed

lemma set_simplex_points_True:
  "set (simplex_points steps True) =
     {(i1, i2, i3). 0 \<le> i1 \<and> 0 \<le> i2 \<and> 0 \<le> i3 \<and> i1 + i2 + i3 = steps}"
  by (auto simp: simplex_points_def set_range_py)

lemma set_simplex_points_False:
  "set (simplex_points steps False) =
     {(i1, i2, i3). 1 \<le> i1 \<and> 1 \<le> i2 \<and> 1 \<le> i3 \<and> i1 + i2 + i3 = steps}"
  by (auto simp: simplex_points_def set_range_py)

lemma simplex_points_ordered: "sorted_wrt loop_before (simplex_points steps boundary)"
  unfolding simplex_points_def Let_def
proof (rule sorted_wrt_concat_map [where R = "(<)"])
  show "sorted_wrt (<) (range_py (if \<not> boundary then 1 else 0)
          (steps + (1 - (if \<not> boundary then 1 else 0))))"
    by (rule sorted_wrt_range_py)
next
  fix x
  have "sorted_wrt (\<lambda>a b. loop_before (x, a, steps - x - a) (x, b, steps - x - b))
          (range_py (if \<not> boundary then 1 else 0)
             (steps + (1 - (if \<not> boundary then 1 else 0)) - x))"
    using sorted_wrt_range_py by (simp add: loop_before_def)
  then show "sorted_wrt loop_before (map (\<lambda>x2. (x, x2, steps - x - x2))
          (range_py (if \<not> boundary then 1 else 0)
             (steps + (1 - (if \<not> boundary then 1 else 0)) - x)))"
    by (simp add: sorted_wrt_map)
next
  fix x y :: int and u v
  assume "x < y"
    and "u \<in> set (map (\<lambda>x2. (x, x2, steps - x - x2))
          (range_py (if \<not> boundary then 1 else 0)
             (steps + (1 - (if \<not> boundary then 1 else 0)) - x)))"
    and "v \<in> set (map (\<lambda>x2. (y, x2, steps - y - x2))
          (range_py (if \<not> boundary then 1 else 0)
             (steps + (1 - (if \<not> boundary then 1 else 0)) - y)))"
  then show "loop_before u v"
    by (auto simp: loop_before_def)
qed

lemma simplex_points_3_True:
  "simplex_points 3 True =
     [(0,0,3),(0,1,2),(0,2,1),(0,3,0),(1,0,2),(1,1,1),(1,2,0),(2,0,1),(2,1,0),(3,0,0)]"
  by (simp add: simplex_points_def range_py_Cons range_py_Nil)

lemma simplex_points_3_False: "simplex_points 3 False = [(1,1,1)]"
  by (simp add: simplex_points_def range_py_Cons range_py_Nil)

text \<open>
  C3. For every number of steps, \<^verbatim>\<open>simplex_points(steps, boundary=True)\<close> yields exactly the
  integer triples with non-negative components that sum to \<open>steps\<close>, and with
  \<^verbatim>\<open>boundary=False\<close> exactly those whose three components are at least 1; each sequence is
  in the order of the nested loops (first component ascending, then the second), so no triple
  is yielded twice. For three steps these are the ten triples listed, in that order, and the
  single triple \<open>(1,1,1)\<close>.
\<close>

theorem simplex_points_enumerates:
  "0 \<le> steps \<Longrightarrow>
     set (simplex_points steps True) =
       {(i1, i2, i3). 0 \<le> i1 \<and> 0 \<le> i2 \<and> 0 \<le> i3 \<and> i1 + i2 + i3 = steps}
   \<and> set (simplex_points steps False) =
       {(i1, i2, i3). 1 \<le> i1 \<and> 1 \<le> i2 \<and> 1 \<le> i3 \<and> i1 + i2 + i3 = steps}
   \<and> sorted_wrt loop_before (simplex_points steps True)
   \<and> sorted_wrt loop_before (simplex_points steps False)
   \<and> simplex_points 3 True =
       [(0,0,3),(0,1,2),(0,2,1),(0,3,0),(1,0,2),(1,1,1),(1,2,0),(2,0,1),(2,1,0),(3,0,0)]
   \<and> simplex_points 3 False = [(1,1,1)]"
  using set_simplex_points_True set_simplex_points_False simplex_points_ordered
    simplex_points_3_True simplex_points_3_False
  by blast

theorem simplex_points_enumerates_witness:
  "(0::int) \<le> 2
   \<and> set (simplex_points 2 True) = {(0,0,2),(0,1,1),(0,2,0),(1,0,1),(1,1,0),(2,0,0)}
   \<and> {(i1, i2, i3). 0 \<le> i1 \<and> 0 \<le> i2 \<and> 0 \<le> i3 \<and> i1 + i2 + i3 = (2::int)}
       = {(0,0,2),(0,1,1),(0,2,0),(1,0,1),(1,1,0),(2,0,0)}
   \<and> sorted_wrt loop_before (simplex_points 2 True)"
proof -
  have h: "(0::int) \<le> 2" by simp
  have e: "set (simplex_points 2 True) = {(0,0,2),(0,1,1),(0,2,0),(1,0,1),(1,1,0),(2,0,0)}"
    by (simp add: simplex_points_def range_py_Cons range_py_Nil)
  show ?thesis
    using simplex_points_enumerates [OF h] e by simp
qed

subsection \<open>The projection\<close>



subsection \<open>The color mapping\<close>





subsection \<open>The style dispatch\<close>

lemma lower_HEX: "lower ''HEX'' = ''hex''"
  by code_simp

lemma startswith_hex_not_tri: "startswith s ''hex'' \<Longrightarrow> \<not> startswith s ''tri''"
  by (auto simp: startswith_def)

text \<open>With the keyword \<^verbatim>\<open>style\<close> given, as \<^verbatim>\<open>None\<close> or as a string whose lowercase form
  starts with \<open>tri\<close>, the call goes to the triangular renderer.\<close>

lemma heatmap_dispatch_triangular:
  assumes "kw_style kw = Some sty"
    and "startswith (lower (case sty of None \<Rightarrow> ''triangular'' | Some s \<Rightarrow> s)) ''tri''"
    and "kw_min_max_scale kw = None"
  shows "heatmap env d steps kw st =
     (case heatmap_triangular env d steps
             (kwarg_or None (kw_cmap_name kw)) (kwarg_or True (kw_boundary kw))
             (kwarg_or None (kw_ax kw)) (kwarg_or False (kw_scientific kw)) st of
        (Inl e, st') \<Rightarrow> (Inl e, st')
      | (Inr ax, st') \<Rightarrow> (Inr (Some ax), st'))"
  using assms by (cases sty) (simp_all add: heatmap_def)

lemma heatmap_style_None_triangular:
  "startswith (lower (case None of None \<Rightarrow> ''triangular'' | Some s \<Rightarrow> s)) ''tri''"
  by code_simp

text \<open>With a style whose lowercase form starts with \<open>hex\<close>, the call goes to the hexagonal
  renderer; \<^verbatim>\<open>style="HEX"\<close> is such a style.\<close>

lemma heatmap_dispatch_hexagonal:
  assumes "kw_style kw = Some (Some s)"
    and "startswith (lower s) ''hex''"
  shows "heatmap env d steps kw st =
     (case heatmap_hexagonal env d steps
             (kwarg_or None (kw_cmap_name kw)) (kwarg_or True (kw_boundary kw))
             (kwarg_or None (kw_ax kw)) (kwarg_or False (kw_scientific kw))
             (kwarg_or None (kw_min_max_scale kw)) st of
        (Inl e, st') \<Rightarrow> (Inl e, st')
      | (Inr ax, st') \<Rightarrow> (Inr (Some ax), st'))"
  using assms startswith_hex_not_tri [of "lower s"] by (simp add: heatmap_def)

lemma heatmap_dispatch_HEX:
  "heatmap env d steps (kw\<lparr>kw_style := Some (Some ''HEX'')\<rparr>) st =
     (case heatmap_hexagonal env d steps
             (kwarg_or None (kw_cmap_name kw)) (kwarg_or True (kw_boundary kw))
             (kwarg_or None (kw_ax kw)) (kwarg_or False (kw_scientific kw))
             (kwarg_or None (kw_min_max_scale kw)) st of
        (Inl e, st') \<Rightarrow> (Inl e, st')
      | (Inr ax, st') \<Rightarrow> (Inr (Some ax), st'))"
  using heatmap_dispatch_hexagonal [of "kw\<lparr>kw_style := Some (Some ''HEX'')\<rparr>" "''HEX''" env d steps st]
  by (simp add: lower_HEX startswith_def)

text \<open>
  C1. The claim has the call without the keyword \<^verbatim>\<open>style\<close> select the triangular renderer.
  In the code that call raises KeyError before any renderer is reached and draws nothing:
  the \<^verbatim>\<open>finally\<close> clause deletes a keyword that is not there.
\<close>

theorem heatmap_without_style_raises:
  "heatmap env d steps (kw\<lparr>kw_style := None\<rparr>) st = (Inl KeyError, st)"
  by (simp add: heatmap_def)

text \<open>
  C9. For every style string whose lowercase form starts with neither \<open>tri\<close> nor \<open>hex\<close>,
  \<^verbatim>\<open>heatmap\<close> raises nothing, leaves the drawing state as it was and returns \<^verbatim>\<open>None\<close>.
\<close>

theorem heatmap_unknown_style_noop:
  "kw_style kw = Some (Some s) \<Longrightarrow> \<not> startswith (lower s) ''tri'' \<Longrightarrow>
   \<not> startswith (lower s) ''hex'' \<Longrightarrow>
     heatmap env d steps kw st = (Inr None, st)"
  by (simp add: heatmap_def)

theorem heatmap_unknown_style_noop_witness:
  "\<not> startswith (lower ''Square'') ''tri'' \<and> \<not> startswith (lower ''Square'') ''hex''
   \<and> heatmap example_env [((0, 0), 1)] 1
        \<lparr>kw_style = Some (Some ''Square''), kw_cmap_name = None, kw_boundary = None,
         kw_ax = None, kw_scientific = None, kw_min_max_scale = None\<rparr>
        \<lparr>current_axes = None, axes_count = 0, drawn = []\<rparr> =
       (Inr None, \<lparr>current_axes = None, axes_count = 0, drawn = []\<rparr>)"
proof -
  have t: "\<not> startswith (lower ''Square'') ''tri''"
    by code_simp
  have h: "\<not> startswith (lower ''Square'') ''hex''"
    by code_simp
  have k: "kw_style \<lparr>kw_style = Some (Some ''Square''), kw_cmap_name = None, kw_boundary = None,
         kw_ax = None, kw_scientific = None, kw_min_max_scale = None\<rparr> = Some (Some ''Square'')"
    by simp
  show ?thesis
    using t h heatmap_unknown_style_noop [OF k t h] by simp
qed

subsection \<open>The empty value map\<close>




subsection \<open>The smoothing triangles\<close>

lemma smoothing_body_except:
  "except_KeyError_pass (smoothing_body env d a b cm i j st) =
     (Inr (),
      if (i, j) \<in> dom (map_of d) \<and> (i, j + 1) \<in> dom (map_of d) \<and> (i + 1, j) \<in> dom (map_of d)
      then pyplot_fill (map fst (triangle_coordinates i j True))
             (map snd (triangle_coordinates i j True))
             (colormapper env
                ((the (map_of d (i, j)) + the (map_of d (i, j + 1)) + the (map_of d (i + 1, j))) / 3)
                a b (Some cm))
             (colormapper env
                ((the (map_of d (i, j)) + the (map_of d (i, j + 1)) + the (map_of d (i + 1, j))) / 3)
                a b (Some cm))
             st
      else st)"
  by (auto simp: smoothing_body_def except_KeyError_pass_def getitem_def unzip_def
        triangle_coordinates_def Let_def split: option.splits)

lemma smoothing_inner_eq:
  "smoothing_inner env d a b cm i js st =
     (Inr (), foldl (\<lambda>s j. snd (except_KeyError_pass (smoothing_body env d a b cm i j s))) st js)"
proof (induction js arbitrary: st)
  case Nil
  show ?case by simp
next
  case (Cons j js)
  show ?case
    by (simp add: smoothing_body_except [of env d a b cm i j st] Cons.IH)
qed

lemma smoothing_outer_eq:
  "smoothing_outer env d steps offset a b cm is st =
     (Inr (), foldl (\<lambda>s i. foldl (\<lambda>s j. snd (except_KeyError_pass (smoothing_body env d a b cm i j s))) s
                         (range_py offset (steps - i - offset))) st is)"
proof (induction "is" arbitrary: st)
  case Nil
  show ?case by simp
next
  case (Cons i "is")
  show ?case
    by (simp add: smoothing_inner_eq Cons.IH)
qed

lemma foldl_nested_concat:
  "foldl (\<lambda>s i. foldl (\<lambda>s j. f (i, j) s) s (g i)) st is =
   foldl (\<lambda>s p. f p s) st (concat (map (\<lambda>i. map (Pair i) (g i)) is))"
proof (induction "is" arbitrary: st)
  case Nil
  show ?case by simp
next
  case (Cons i "is")
  have "foldl (\<lambda>s j. f (i, j) s) st (g i) = foldl (\<lambda>s p. f p s) st (map (Pair i) (g i))"
    by (induction "g i" arbitrary: st) (simp_all add: foldl_map)
  then show ?case
    by (simp add: Cons.IH)
qed

lemma foldl_skip_filter:
  "foldl (\<lambda>s p. if P p then h p s else s) st ps = foldl (\<lambda>s p. h p s) st (filter P ps)"
  by (induction ps arbitrary: st) simp_all

text \<open>
  C6. The smoothing loop of the triangular renderer never raises. Its effect is one fill per
  index \<open>(i, j)\<close> of the loop's range whose three keys \<open>(i, j)\<close>, \<open>(i, j + 1)\<close> and
  \<open>(i + 1, j)\<close> are all in the value map, in the order of the loop, and nothing for any other
  index: the fill is the alt triangle at \<open>(i, j)\<close> in the color that \<^verbatim>\<open>colormapper\<close> gives
  to the mean of the three values.
\<close>

theorem smoothing_fills:
  "smoothing env d steps boundary a b cm st =
     (Inr (),
      foldl (\<lambda>s (i, j).
               pyplot_fill (map fst (triangle_coordinates i j True))
                 (map snd (triangle_coordinates i j True))
                 (colormapper env
                    ((the (map_of d (i, j)) + the (map_of d (i, j + 1)) + the (map_of d (i + 1, j))) / 3)
                    a b (Some cm))
                 (colormapper env
                    ((the (map_of d (i, j)) + the (map_of d (i, j + 1)) + the (map_of d (i + 1, j))) / 3)
                    a b (Some cm))
                 s)
        st
        (filter (\<lambda>(i, j). (i, j) \<in> dom (map_of d) \<and> (i, j + 1) \<in> dom (map_of d)
                          \<and> (i + 1, j) \<in> dom (map_of d))
           (concat (map (\<lambda>i. map (Pair i)
                                (range_py (if boundary then 0 else 1)
                                   (steps - i - (if boundary then 0 else 1))))
                      (range_py (if boundary then 0 else 1)
                         (steps + 1 - (if boundary then 0 else 1)))))))"
proof -
  let ?off = "if boundary then 0 else (1::int)"
  let ?P = "\<lambda>(i, j). (i, j) \<in> dom (map_of d) \<and> (i, j + 1) \<in> dom (map_of d)
                          \<and> (i + 1, j) \<in> dom (map_of d)"
  let ?h = "\<lambda>(i, j) s. pyplot_fill (map fst (triangle_coordinates i j True))
                 (map snd (triangle_coordinates i j True))
                 (colormapper env
                    ((the (map_of d (i, j)) + the (map_of d (i, j + 1)) + the (map_of d (i + 1, j))) / 3)
                    a b (Some cm))
                 (colormapper env
                    ((the (map_of d (i, j)) + the (map_of d (i, j + 1)) + the (map_of d (i + 1, j))) / 3)
                    a b (Some cm))
                 s"
  let ?f = "\<lambda>p s. if ?P p then ?h p s else s"
  have step: "snd (except_KeyError_pass (smoothing_body env d a b cm i j s)) = ?f (i, j) s" for i j s
    by (simp add: smoothing_body_except)
  have "smoothing env d steps boundary a b cm st =
      (Inr (), foldl (\<lambda>s i. foldl (\<lambda>s j. ?f (i, j) s) s (range_py ?off (steps - i - ?off))) st
                 (range_py ?off (steps + 1 - ?off)))"
    unfolding smoothing_def Let_def smoothing_outer_eq step by simp
  also have "foldl (\<lambda>s i. foldl (\<lambda>s j. ?f (i, j) s) s (range_py ?off (steps - i - ?off))) st
                 (range_py ?off (steps + 1 - ?off)) =
      foldl (\<lambda>s p. ?f p s) st
        (concat (map (\<lambda>i. map (Pair i) (range_py ?off (steps - i - ?off)))
                   (range_py ?off (steps + 1 - ?off))))"
    by (rule foldl_nested_concat [where f = ?f])
  also have "\<dots> = foldl (\<lambda>s p. ?h p s) st
        (filter ?P (concat (map (\<lambda>i. map (Pair i) (range_py ?off (steps - i - ?off)))
                   (range_py ?off (steps + 1 - ?off)))))"
    by (rule foldl_skip_filter)
  finally show ?thesis
    by (simp add: case_prod_unfold)
qed

theorem smoothing_fills_witness:
  "smoothing example_env [((0, 0), 1), ((0, 1), 2), ((1, 0), 3)] 2 True 1 3 (DEFAULT_COLOR_MAP example_env)
     \<lparr>current_axes = Some 0, axes_count = 1, drawn = []\<rparr> =
   (Inr (), \<lparr>current_axes = Some 0, axes_count = 1,
      drawn = [(0, Fill [1, 3 / 2, 1 / 2] [0, SQRT3OVER2, SQRT3OVER2] ''#ffffff'' ''#ffffff'')]\<rparr>)"
  using smoothing_fills [of example_env "[((0, 0), 1), ((0, 1), 2), ((1, 0), 3)]" 2 True 1 3
      "DEFAULT_COLOR_MAP example_env" "\<lparr>current_axes = Some 0, axes_count = 1, drawn = []\<rparr>"]
  by (simp add: range_py_Cons range_py_Nil triangle_coordinates_def colormapper_def example_env_def pyplot_fill_def
      subplot_def ax_fill_def dom_def)

subsection \<open>The drawing surface\<close>

lemma extends_trans:
  "st1 = st\<lparr>drawn := drawn st @ map (Pair a) ps\<rparr> \<Longrightarrow>
   st2 = st1\<lparr>drawn := drawn st1 @ map (Pair a) qs\<rparr> \<Longrightarrow>
   st2 = st\<lparr>drawn := drawn st @ map (Pair a) (ps @ qs)\<rparr>"
  by simp

lemma ax_fill_extends:
  "ax_fill a x y f e st = st\<lparr>drawn := drawn st @ map (Pair a) [Fill x y f e]\<rparr>"
  by (simp add: ax_fill_def)

lemma colorbar_extends:
  "colorbar a cm lo hi fmt n sc st = st\<lparr>drawn := drawn st @ map (Pair a) [Colorbar cm lo hi fmt n sc]\<rparr>"
  by (simp add: colorbar_def)

lemma pyplot_fill_current:
  "current_axes st = Some a \<Longrightarrow>
     pyplot_fill x y f e st = st\<lparr>drawn := drawn st @ map (Pair a) [Fill x y f e]\<rparr>"
  by (simp add: pyplot_fill_def subplot_def ax_fill_def)

lemma hexagonal_cells_extends:
  "\<exists>ps. snd (hexagonal_cells env d steps lo hi cm a items st) =
          st\<lparr>drawn := drawn st @ map (Pair a) ps\<rparr>"
proof (induction items arbitrary: st)
  case Nil
  have "snd (hexagonal_cells env d steps lo hi cm a [] st) = st\<lparr>drawn := drawn st @ map (Pair a) []\<rparr>"
    by simp
  then show ?case by blast
next
  case (Cons item items)
  obtain i j v where item: "item = ((i, j), v)"
    by (cases item) auto
  have keep: "\<exists>ps. st = st\<lparr>drawn := drawn st @ map (Pair a) ps\<rparr>"
    by (rule exI [of _ "[]"]) simp
  have more: "\<exists>ps. snd (hexagonal_cells env d steps lo hi cm a items (ax_fill a x y f e st)) =
          st\<lparr>drawn := drawn st @ map (Pair a) ps\<rparr>" for x y f e
  proof -
    obtain qs where "snd (hexagonal_cells env d steps lo hi cm a items (ax_fill a x y f e st)) =
        (ax_fill a x y f e st)\<lparr>drawn := drawn (ax_fill a x y f e st) @ map (Pair a) qs\<rparr>"
      using Cons.IH by blast
    then have "snd (hexagonal_cells env d steps lo hi cm a items (ax_fill a x y f e st)) =
        st\<lparr>drawn := drawn st @ map (Pair a) ([Fill x y f e] @ qs)\<rparr>"
      by (intro extends_trans [OF ax_fill_extends])
    then show ?thesis by blast
  qed
  show ?case
    using keep more Cons.IH [of st]
    by (simp add: item Let_def split: option.splits sum.splits prod.splits)
qed

lemma triangular_cells_extends:
  "\<exists>ps. snd (triangular_cells env d lo hi cm a items st) =
          st\<lparr>drawn := drawn st @ map (Pair a) ps\<rparr>"
proof (induction items arbitrary: st)
  case Nil
  have "snd (triangular_cells env d lo hi cm a [] st) = st\<lparr>drawn := drawn st @ map (Pair a) []\<rparr>"
    by simp
  then show ?case by blast
next
  case (Cons item items)
  obtain i j v where item: "item = ((i, j), v)"
    by (cases item) auto
  have keep: "\<exists>ps. st = st\<lparr>drawn := drawn st @ map (Pair a) ps\<rparr>"
    by (rule exI [of _ "[]"]) simp
  have more: "\<exists>ps. snd (triangular_cells env d lo hi cm a items (ax_fill a x y f e st)) =
          st\<lparr>drawn := drawn st @ map (Pair a) ps\<rparr>" for x y f e
  proof -
    obtain qs where "snd (triangular_cells env d lo hi cm a items (ax_fill a x y f e st)) =
        (ax_fill a x y f e st)\<lparr>drawn := drawn (ax_fill a x y f e st) @ map (Pair a) qs\<rparr>"
      using Cons.IH by blast
    then have "snd (triangular_cells env d lo hi cm a items (ax_fill a x y f e st)) =
        st\<lparr>drawn := drawn st @ map (Pair a) ([Fill x y f e] @ qs)\<rparr>"
      by (intro extends_trans [OF ax_fill_extends])
    then show ?thesis by blast
  qed
  show ?case
    using keep more
    by (simp add: item Let_def split: option.splits sum.splits prod.splits)
qed

text \<open>The hexagonal renderer issues every command against the axes given, and returns
  them.\<close>

lemma hexagonal_cells_result:
  assumes "hexagonal_cells env d steps lo hi cm a items st = (r, st2)"
  shows "\<exists>ps. st2 = st\<lparr>drawn := drawn st @ map (Pair a) ps\<rparr>"
    and "\<exists>ps. colorbar a cm' lo' hi' fmt n sc st2 = st\<lparr>drawn := drawn st @ map (Pair a) ps\<rparr>"
proof -
  obtain ps where ps: "st2 = st\<lparr>drawn := drawn st @ map (Pair a) ps\<rparr>"
    using hexagonal_cells_extends [of env d steps lo hi cm a items st] assms by auto
  then show "\<exists>ps. st2 = st\<lparr>drawn := drawn st @ map (Pair a) ps\<rparr>"
    by blast
  have "colorbar a cm' lo' hi' fmt n sc st2 =
          st\<lparr>drawn := drawn st @ map (Pair a) (ps @ [Colorbar cm' lo' hi' fmt n sc])\<rparr>"
    using ps by (rule extends_trans) (rule colorbar_extends)
  then show "\<exists>ps. colorbar a cm' lo' hi' fmt n sc st2 = st\<lparr>drawn := drawn st @ map (Pair a) ps\<rparr>"
    by blast
qed

lemma heatmap_hexagonal_on_ax:
  assumes "heatmap_hexagonal env d steps cmap_name boundary (Some ax) scientific mms st = (r, st')"
  shows "(\<exists>ps. st' = st\<lparr>drawn := drawn st @ map (Pair ax) ps\<rparr>) \<and> (\<forall>a. r = Inr a \<longrightarrow> a = ax)"
proof -
  have keep: "\<exists>ps. st = st\<lparr>drawn := drawn st @ map (Pair ax) ps\<rparr>"
    by (rule exI [of _ "[]"]) simp
  show ?thesis
    using assms keep
    by (auto simp: heatmap_hexagonal_def
        split: option.splits sum.splits prod.splits if_splits
        dest: hexagonal_cells_result)
qed

lemma foldl_extends:
  assumes step: "\<And>s x. current_axes s = Some a \<Longrightarrow>
                   \<exists>ps. f s x = s\<lparr>drawn := drawn s @ map (Pair a) ps\<rparr>"
    and cur: "current_axes st = Some a"
  shows "\<exists>ps. foldl f st xs = st\<lparr>drawn := drawn st @ map (Pair a) ps\<rparr>"
  using cur
proof (induction xs arbitrary: st)
  case Nil
  show ?case by (rule exI [of _ "[]"]) simp
next
  case (Cons x xs)
  obtain ps where ps: "f st x = st\<lparr>drawn := drawn st @ map (Pair a) ps\<rparr>"
    using step [OF Cons.prems] by blast
  then have "current_axes (f st x) = Some a"
    using Cons.prems by simp
  then obtain qs where "foldl f (f st x) xs = (f st x)\<lparr>drawn := drawn (f st x) @ map (Pair a) qs\<rparr>"
    using Cons.IH by blast
  then have "foldl f st (x # xs) = st\<lparr>drawn := drawn st @ map (Pair a) (ps @ qs)\<rparr>"
    using ps by simp
  then show ?case by blast
qed

lemma smoothing_extends:
  assumes "current_axes st = Some a"
  shows "\<exists>ps. smoothing env d steps boundary lo hi cm st =
           (Inr (), st\<lparr>drawn := drawn st @ map (Pair a) ps\<rparr>)"
proof -
  have body: "\<exists>ps. snd (except_KeyError_pass (smoothing_body env d lo hi cm i j s)) =
                 s\<lparr>drawn := drawn s @ map (Pair a) ps\<rparr>"
    if "current_axes s = Some a" for s i j
  proof (cases "(i, j) \<in> dom (map_of d) \<and> (i, j + 1) \<in> dom (map_of d) \<and> (i + 1, j) \<in> dom (map_of d)")
    case True
    have "\<exists>ps. pyplot_fill x y f e s = s\<lparr>drawn := drawn s @ map (Pair a) ps\<rparr>" for x y f e
      using pyplot_fill_current [OF that] by blast
    then show ?thesis
      using True by (simp add: smoothing_body_except)
  next
    case False
    have "\<exists>ps. s = s\<lparr>drawn := drawn s @ map (Pair a) ps\<rparr>"
      by (rule exI [of _ "[]"]) simp
    then show ?thesis
      using False by (simp only: smoothing_body_except snd_conv if_False)
  qed
  have inner: "\<exists>ps. foldl (\<lambda>s j. snd (except_KeyError_pass (smoothing_body env d lo hi cm i j s))) s js =
                 s\<lparr>drawn := drawn s @ map (Pair a) ps\<rparr>"
    if "current_axes s = Some a" for s i js
    using body that by (rule foldl_extends)
  have "\<exists>ps. foldl (\<lambda>s i. foldl (\<lambda>s j. snd (except_KeyError_pass (smoothing_body env d lo hi cm i j s))) s
                         (range_py off (steps - i - off))) st is =
                 st\<lparr>drawn := drawn st @ map (Pair a) ps\<rparr>" for off "is"
    using inner assms by (rule foldl_extends)
  then show ?thesis
    by (simp add: smoothing_def smoothing_outer_eq Let_def)
qed

lemma triangular_cells_result:
  assumes "triangular_cells env d lo hi cm a items st = (r, st2)"
  shows "\<exists>ps. st2 = st\<lparr>drawn := drawn st @ map (Pair a) ps\<rparr>"
  using triangular_cells_extends [of env d lo hi cm a items st] assms by auto

lemma heatmap_triangular_from:
  assumes cur: "current_axes st1 = Some a"
    and run: "heatmap_triangular env d steps cmap_name boundary (Some a) scientific st1 = (r, st')"
  shows "(\<exists>ps. st' = st1\<lparr>drawn := drawn st1 @ map (Pair a) ps\<rparr>) \<and> (\<forall>a'. r = Inr a' \<longrightarrow> a' = a)"
proof -
  have keep: "\<exists>ps. st1 = st1\<lparr>drawn := drawn st1 @ map (Pair a) ps\<rparr>"
    by (rule exI [of _ "[]"]) simp
  have rest: "\<exists>ps. colorbar a cm' lo' hi' fmt n sc st3 = st1\<lparr>drawn := drawn st1 @ map (Pair a) ps\<rparr>"
    if c: "triangular_cells env d lo hi cm a d st1 = (r2, st2)"
      and s: "smoothing env d steps boundary lo hi cm st2 = (r3, st3)"
    for lo hi cm r2 st2 r3 st3 cm' lo' hi' fmt n sc
  proof -
    obtain ps where ps: "st2 = st1\<lparr>drawn := drawn st1 @ map (Pair a) ps\<rparr>"
      using triangular_cells_result [OF c] by blast
    then have "current_axes st2 = Some a"
      using cur by simp
    then obtain qs where "st3 = st2\<lparr>drawn := drawn st2 @ map (Pair a) qs\<rparr>"
      using smoothing_extends [of st2 a env d steps boundary lo hi cm] s by auto
    then have "st3 = st1\<lparr>drawn := drawn st1 @ map (Pair a) (ps @ qs)\<rparr>"
      using ps by simp
    then have "colorbar a cm' lo' hi' fmt n sc st3 =
        st1\<lparr>drawn := drawn st1 @ map (Pair a) ((ps @ qs) @ [Colorbar cm' lo' hi' fmt n sc])\<rparr>"
      by (rule extends_trans) (rule colorbar_extends)
    then show ?thesis by blast
  qed
  have never: "smoothing env d steps boundary lo hi cm st2 \<noteq> (Inl e, st3)" for lo hi cm st2 e st3
    by (simp add: smoothing_def smoothing_outer_eq Let_def)
  show ?thesis
    using run keep
    by (auto simp: heatmap_triangular_def never
        split: option.splits sum.splits prod.splits if_splits
        dest: triangular_cells_result rest)
qed

text \<open>When no axes are given, or the axes given are the current axes of the plotting
  library, every command of the triangular renderer is on the axes it returns.\<close>

lemma subplot_current: "current_axes (snd (subplot st)) = Some (fst (subplot st))"
  by (simp add: subplot_def split: option.splits)

lemma subplot_drawn: "drawn (snd (subplot st)) = drawn st"
  by (simp add: subplot_def split: option.splits)

lemma heatmap_triangular_on_current_axes:
  assumes ax: "ax = None \<or> ax = current_axes st"
    and run: "heatmap_triangular env d steps cmap_name boundary ax scientific st = (r, st')"
  shows "(\<exists>ps. drawn st' = drawn st @ map (Pair (fst (subplot st))) ps)
       \<and> (\<forall>a. r = Inr a \<longrightarrow> a = fst (subplot st))"
proof -
  have "(case ax of None \<Rightarrow> subplot st | Some ax' \<Rightarrow> (ax', st)) = subplot st"
    using ax by (auto simp: subplot_def split: option.splits)
  then have "heatmap_triangular env d steps cmap_name boundary ax scientific st =
      heatmap_triangular env d steps cmap_name boundary (Some (fst (subplot st))) scientific
        (snd (subplot st))"
    by (simp add: heatmap_triangular_def)
  then have "heatmap_triangular env d steps cmap_name boundary (Some (fst (subplot st))) scientific
        (snd (subplot st)) = (r, st')"
    using run by simp
  then have "(\<exists>ps. st' = (snd (subplot st))\<lparr>drawn := drawn (snd (subplot st)) @ map (Pair (fst (subplot st))) ps\<rparr>)
      \<and> (\<forall>a'. r = Inr a' \<longrightarrow> a' = fst (subplot st))"
    by (rule heatmap_triangular_from [OF subplot_current])
  then show ?thesis
    by (auto simp: subplot_drawn)
qed

text \<open>
  C2. The claim has every fill of a heatmap issued against the axes given to the renderer.
  In the triangular renderer the fills of the smoothing triangles go through \<^verbatim>\<open>pyplot.fill\<close>,
  that is, to the current axes of the plotting library. Here the axes 1 are given while the
  axes 0 are current: the three data cells and the legend are drawn on the axes 1, the
  smoothing triangle on the axes 0, and the axes 1 are returned.
\<close>

theorem heatmap_triangular_alt_fill_off_axes:
  "heatmap_triangular env [((0, 0), 1), ((0, 1), 2), ((1, 0), 3)] 1 None True (Some 1) False
     \<lparr>current_axes = Some 0, axes_count = 2, drawn = []\<rparr> =
   (Inr 1, \<lparr>current_axes = Some 0, axes_count = 2, drawn =
      [(1, Fill [0, 1, 1 / 2] [0, 0, SQRT3OVER2]
             (rgb2hex env (DEFAULT_COLOR_MAP env 0)) (rgb2hex env (DEFAULT_COLOR_MAP env 0))),
       (1, Fill [1, 2, 3 / 2] [0, 0, SQRT3OVER2]
             (rgb2hex env (DEFAULT_COLOR_MAP env (1 / 2))) (rgb2hex env (DEFAULT_COLOR_MAP env (1 / 2)))),
       (1, Fill [1 / 2, 3 / 2, 1] [SQRT3OVER2, SQRT3OVER2, 2 * SQRT3OVER2]
             (rgb2hex env (DEFAULT_COLOR_MAP env 1)) (rgb2hex env (DEFAULT_COLOR_MAP env 1))),
       (0, Fill [1, 3 / 2, 1 / 2] [0, SQRT3OVER2, SQRT3OVER2]
             (rgb2hex env (DEFAULT_COLOR_MAP env (1 / 2))) (rgb2hex env (DEFAULT_COLOR_MAP env (1 / 2)))),
       (1, Colorbar (DEFAULT_COLOR_MAP env) 1 3 ''%.3f'' None False)]\<rparr>)"
  by (simp add: heatmap_triangular_def values_py_def unzip_def getitem_def
      triangle_coordinates_def colormapper_def ax_fill_def colorbar_def
      smoothing_def smoothing_body_def except_KeyError_pass_def pyplot_fill_def subplot_def range_py_Cons range_py_Nil Let_def)

subsection \<open>The function-driven heatmap\<close>








end
